theory Spec2Isabelle
  imports Main
begin

section \<open>JavaScript values and strings\<close>

text \<open>
  The server in \<^verbatim>\<open>src/index.ts\<close> receives tool arguments as parsed JSON, typed
  \<^verbatim>\<open>any\<close>.  A value is one of the JSON shapes or \<^verbatim>\<open>undefined\<close> (an absent
  argument bag or an absent property).  A string is a \<^typ>\<open>string\<close>; all literals the code
  compares with and all characters its patterns look at are ASCII.  The validators read only
  the \<^verbatim>\<open>typeof\<close> of a number, never its value.
\<close>

datatype js_value =
    Undefined
  | Null
  | Boolean bool
  | Number int
  | String string
  | Array "js_value list"
  | Object "(string \<times> js_value) list"

text \<open>\<^verbatim>\<open>typeof v\<close>.\<close>

fun typeof :: "js_value \<Rightarrow> string" where
  "typeof Undefined = ''undefined''"
| "typeof Null = ''object''"
| "typeof (Boolean b) = ''boolean''"
| "typeof (Number n) = ''number''"
| "typeof (String s) = ''string''"
| "typeof (Array vs) = ''object''"
| "typeof (Object kvs) = ''object''"

text \<open>
  \<^verbatim>\<open>args.name\<close> for the property names the validators read (none of them is an array
  index, \<^verbatim>\<open>length\<close> or a property of \<^verbatim>\<open>Object.prototype\<close>): the value stored under
  the name in an object, \<^verbatim>\<open>undefined\<close> otherwise.  On \<^verbatim>\<open>null\<close> and
  \<^verbatim>\<open>undefined\<close> the access would throw; every access in the source sits behind
  \<^verbatim>\<open>typeof args === 'object' && args !== null\<close>, so it is never made there.  An
  object lists its own properties, each name once.
\<close>

fun get_prop :: "js_value \<Rightarrow> string \<Rightarrow> js_value" where
  "get_prop (Object kvs) name = (case map_of kvs name of None \<Rightarrow> Undefined | Some v \<Rightarrow> v)"
| "get_prop v name = Undefined"

text \<open>JavaScript truthiness, as used by \<^verbatim>\<open>if (x)\<close>, \<^verbatim>\<open>!x\<close> and \<^verbatim>\<open>x || y\<close>.\<close>

fun truthy :: "js_value \<Rightarrow> bool" where
  "truthy Undefined = False"
| "truthy Null = False"
| "truthy (Boolean b) = b"
| "truthy (Number n) = (n \<noteq> 0)"
| "truthy (String s) = (s \<noteq> [])"
| "truthy (Array vs) = True"
| "truthy (Object kvs) = True"

text \<open>
  The string held by a value behind a type guard that has established
  \<^verbatim>\<open>typeof v === 'string'\<close>.
\<close>

fun asString :: "js_value \<Rightarrow> string" where
  "asString (String s) = s"
| "asString v = []"

text \<open>\<^verbatim>\<open>s.split(sep)\<close> for a one-character separator: never empty, \<^verbatim>\<open>"".split("/")\<close>
  is \<^verbatim>\<open>[""]\<close>.\<close>

fun js_split :: "char \<Rightarrow> string \<Rightarrow> string list" where
  "js_split sep [] = [[]]"
| "js_split sep (c # cs) =
     (if c = sep then [] # js_split sep cs
      else (case js_split sep cs of
              [] \<Rightarrow> [[c]]
            | p # ps \<Rightarrow> (c # p) # ps))"

text \<open>\<^verbatim>\<open>xs.indexOf(x)\<close>: the first index holding \<open>x\<close>, or \<open>-1\<close>.\<close>

fun indexOf :: "'a list \<Rightarrow> 'a \<Rightarrow> int" where
  "indexOf [] x = - 1"
| "indexOf (y # ys) x =
     (if y = x then 0
      else (let i = indexOf ys x in if i = - 1 then - 1 else i + 1))"

text \<open>\<^verbatim>\<open>/^\d+$/.test(s)\<close>: one or more characters, each of \<^verbatim>\<open>0\<close> to \<^verbatim>\<open>9\<close>.\<close>

definition is_digit :: "char \<Rightarrow> bool" where
  "is_digit c = (c \<in> set ''0123456789'')"

definition test_digits :: "string \<Rightarrow> bool" where
  "test_digits s = (s \<noteq> [] \<and> list_all is_digit s)"

text \<open>\<^verbatim>\<open>s.endsWith("/")\<close> and \<^verbatim>\<open>s.slice(0, -1)\<close>.\<close>

definition endsWith_slash :: "string \<Rightarrow> bool" where
  "endsWith_slash s = (s \<noteq> [] \<and> last s = CHR ''/'')"

definition slice_0_minus1 :: "string \<Rightarrow> string" where
  "slice_0_minus1 s = butlast s"

section \<open>The URL constructor\<close>

text \<open>
  \<^verbatim>\<open>new URL(input)\<close> is the platform's WHATWG URL parser, called without a base.  The
  code reads only \<^verbatim>\<open>pathname\<close> of the result, and catches the \<^verbatim>\<open>TypeError\<close> of a
  failed parse.
\<close>

datatype js_error = TypeError string

record URL =
  protocol :: string
  host :: string
  pathname :: string

type_synonym url_parser = "string \<Rightarrow> js_error + URL"

text \<open>
  The first stage of the parser is fixed by the URL standard and is modelled here: leading
  and trailing C0 controls and spaces are stripped, tabs and newlines are removed, and the
  input must begin with a scheme (an ASCII letter, then letters, digits, \<^verbatim>\<open>+\<close>,
  \<^verbatim>\<open>-\<close>, \<^verbatim>\<open>.\<close>) and a colon; without one the parse fails, since there is no base.
  What follows the colon (authority, host, port, path normalisation, query, fragment) is
  the parameter \<open>after_scheme\<close>, given the lower-cased scheme and the remaining input.
\<close>

definition is_c0_or_space :: "char \<Rightarrow> bool" where
  "is_c0_or_space c = ((of_char c :: nat) \<le> 32)"

definition is_tab_or_newline :: "char \<Rightarrow> bool" where
  "is_tab_or_newline c = ((of_char c :: nat) \<in> {9, 10, 13})"

definition is_alpha :: "char \<Rightarrow> bool" where
  "is_alpha c = (c \<in> set ''abcdefghijklmnopqrstuvwxyzABCDEFGHIJKLMNOPQRSTUVWXYZ'')"

definition is_scheme_char :: "char \<Rightarrow> bool" where
  "is_scheme_char c = (is_alpha c \<or> is_digit c \<or> c \<in> set ''+-.'')"

definition to_lower :: "char \<Rightarrow> char" where
  "to_lower c =
     (if c \<in> set ''ABCDEFGHIJKLMNOPQRSTUVWXYZ'' then char_of ((of_char c :: nat) + 32) else c)"

definition strip_input :: "string \<Rightarrow> string" where
  "strip_input s =
     filter (\<lambda>c. \<not> is_tab_or_newline c)
       (rev (dropWhile is_c0_or_space (rev (dropWhile is_c0_or_space s))))"

definition split_scheme :: "string \<Rightarrow> (string \<times> string) option" where
  "split_scheme s =
     (case s of
        [] \<Rightarrow> None
      | c # cs \<Rightarrow>
          if \<not> is_alpha c then None
          else (case dropWhile is_scheme_char cs of
                  [] \<Rightarrow> None
                | d # ds \<Rightarrow>
                    if d = CHR '':'' then Some (map to_lower (c # takeWhile is_scheme_char cs), ds)
                    else None))"

definition new_URL :: "(string \<Rightarrow> string \<Rightarrow> js_error + URL) \<Rightarrow> url_parser" where
  "new_URL after_scheme input =
     (case split_scheme (strip_input input) of
        None \<Rightarrow> Inl (TypeError ''Invalid URL'')
      | Some (scheme, rest) \<Rightarrow> after_scheme scheme rest)"

section \<open>The issue-reference normaliser\<close>

text \<open>
  \<^verbatim>\<open>getIssueId\<close> (index.ts, lines 62 to 75), with the platform's URL constructor as
  its first argument.  The whole body is inside \<^verbatim>\<open>try\<close>; the handler runs only when
  \<^verbatim>\<open>new URL\<close> throws, and nothing in it throws.  \<open>Inr None\<close> is the returned
  \<^verbatim>\<open>null\<close>; \<open>Inl\<close> would be an exception leaving the function, which no branch
  produces.
\<close>

definition getIssueId :: "url_parser \<Rightarrow> string \<Rightarrow> js_error + string option" where
  "getIssueId URL_ctor input =
     (case URL_ctor input of
        Inr url \<Rightarrow>
          (let pathParts = js_split CHR ''/'' (pathname url);
               issuesIndex = indexOf pathParts ''issues''
           in if issuesIndex \<noteq> - 1 \<and> int (length pathParts) > issuesIndex + 1
              then (let potentialId = pathParts ! nat (issuesIndex + 1)
                    in if test_digits potentialId then Inr (Some potentialId) else Inr None)
              else Inr None)
      | Inl e \<Rightarrow>
          if test_digits input then Inr (Some input) else Inr None)"

section \<open>Startup configuration\<close>

text \<open>
  Lines 26 to 42.  Each setting is the environment variable when that is set and not empty
  (\<^verbatim>\<open>process.env.X || rc...\<close>), otherwise the value of the rc file; a setting that
  is then missing or empty stops the process, and so does a \<^verbatim>\<open>SENTRY_URL\<close> that
  \<^verbatim>\<open>new URL\<close> rejects.  The effective base URL drops one trailing slash.
\<close>

record Settings =
  url :: "string option"
  token :: "string option"
  org :: "string option"

record EffectiveConfig =
  SENTRY_BASE_URL :: string
  SENTRY_AUTH_TOKEN :: string
  ORG_SLUG :: string

datatype startup_error =
    Missing_SENTRY_URL
  | Missing_SENTRY_AUTH_TOKEN
  | Missing_SENTRY_ORG_SLUG
  | Invalid_SENTRY_URL_format string

definition js_or :: "string option \<Rightarrow> string option \<Rightarrow> string option" where
  "js_or a b = (case a of Some s \<Rightarrow> if s \<noteq> [] then Some s else b | None \<Rightarrow> b)"

definition falsy :: "string option \<Rightarrow> bool" where
  "falsy a = (case a of None \<Rightarrow> True | Some s \<Rightarrow> s = [])"

definition base_url_of :: "string \<Rightarrow> string" where
  "base_url_of SENTRY_URL =
     (if endsWith_slash SENTRY_URL then slice_0_minus1 SENTRY_URL else SENTRY_URL)"

definition startup :: "url_parser \<Rightarrow> Settings \<Rightarrow> Settings \<Rightarrow> startup_error + EffectiveConfig" where
  "startup URL_ctor env rc =
     (let SENTRY_URL = js_or (url env) (url rc);
          AUTH_TOKEN = js_or (token env) (token rc);
          ORG = js_or (org env) (org rc)
      in if falsy SENTRY_URL then Inl Missing_SENTRY_URL
         else if falsy AUTH_TOKEN then Inl Missing_SENTRY_AUTH_TOKEN
         else if falsy ORG then Inl Missing_SENTRY_ORG_SLUG
         else (case URL_ctor (the SENTRY_URL) of
                 Inl e \<Rightarrow> Inl (Invalid_SENTRY_URL_format (the SENTRY_URL))
               | Inr u \<Rightarrow>
                   Inr \<lparr>SENTRY_BASE_URL = base_url_of (the SENTRY_URL),
                        SENTRY_AUTH_TOKEN = the AUTH_TOKEN,
                        ORG_SLUG = the ORG\<rparr>))"

text \<open>The \<^verbatim>\<open>baseURL\<close> the HTTP client is created with (line 92).\<close>

definition axios_baseURL :: "EffectiveConfig \<Rightarrow> string" where
  "axios_baseURL cfg = SENTRY_BASE_URL cfg @ ''/api/0/''"

section \<open>Argument validators\<close>

text \<open>Lines 44 to 60, one type guard per tool that takes arguments.\<close>

definition isValidGetIssueArgs :: "js_value \<Rightarrow> bool" where
  "isValidGetIssueArgs args =
     (typeof args = ''object'' \<and> args \<noteq> Null \<and>
      typeof (get_prop args ''issue_id_or_url'') = ''string'')"

definition isValidListIssuesArgs :: "js_value \<Rightarrow> bool" where
  "isValidListIssuesArgs args =
     (typeof args = ''object'' \<and> args \<noteq> Null \<and>
      typeof (get_prop args ''project_slug'') = ''string'' \<and>
      (get_prop args ''query'' = Undefined \<or> typeof (get_prop args ''query'') = ''string'') \<and>
      (get_prop args ''status'' = Undefined \<or> typeof (get_prop args ''status'') = ''string''))"

definition isValidGetEventArgs :: "js_value \<Rightarrow> bool" where
  "isValidGetEventArgs args =
     (typeof args = ''object'' \<and> args \<noteq> Null \<and>
      typeof (get_prop args ''project_slug'') = ''string'' \<and>
      typeof (get_prop args ''event_id'') = ''string'')"

definition isValidUpdateIssueArgs :: "js_value \<Rightarrow> bool" where
  "isValidUpdateIssueArgs args =
     (typeof args = ''object'' \<and> args \<noteq> Null \<and>
      typeof (get_prop args ''issue_id'') = ''string'' \<and>
      typeof (get_prop args ''status'') = ''string'' \<and>
      asString (get_prop args ''status'') \<in> set [''resolved'', ''ignored'', ''unresolved''])"

definition isValidCreateCommentArgs :: "js_value \<Rightarrow> bool" where
  "isValidCreateCommentArgs args =
     (typeof args = ''object'' \<and> args \<noteq> Null \<and>
      typeof (get_prop args ''issue_id'') = ''string'' \<and>
      typeof (get_prop args ''comment_text'') = ''string'')"

section \<open>The tool registry\<close>

text \<open>
  The listing answered to \<^verbatim>\<open>ListTools\<close> (lines 103 to 165): per tool its name and
  its input schema, that is the declared properties (type and, where declared, the
  enumeration) and the required names.  The description strings are left out.
\<close>

record PropertySchema =
  ptype :: string
  enum :: "string list option"

record Tool =
  name :: string
  properties :: "(string \<times> PropertySchema) list"
  required :: "string list"

definition string_prop :: PropertySchema where
  "string_prop = \<lparr>ptype = ''string'', enum = None\<rparr>"

definition tools :: "Tool list" where
  "tools =
     [\<lparr>name = ''get_sentry_issue'',
       properties = [(''issue_id_or_url'', string_prop)],
       required = [''issue_id_or_url'']\<rparr>,
      \<lparr>name = ''list_sentry_projects'', properties = [], required = []\<rparr>,
      \<lparr>name = ''list_sentry_issues'',
       properties =
         [(''project_slug'', string_prop),
          (''query'', string_prop),
          (''status'', \<lparr>ptype = ''string'', enum = Some [''resolved'', ''unresolved'', ''ignored'']\<rparr>)],
       required = [''project_slug'']\<rparr>,
      \<lparr>name = ''get_sentry_event_details'',
       properties = [(''project_slug'', string_prop), (''event_id'', string_prop)],
       required = [''project_slug'', ''event_id'']\<rparr>,
      \<lparr>name = ''update_sentry_issue_status'',
       properties =
         [(''issue_id'', string_prop),
          (''status'', \<lparr>ptype = ''string'', enum = Some [''resolved'', ''ignored'', ''unresolved'']\<rparr>)],
       required = [''issue_id'', ''status'']\<rparr>,
      \<lparr>name = ''create_sentry_issue_comment'',
       properties = [(''issue_id'', string_prop), (''comment_text'', string_prop)],
       required = [''issue_id'', ''comment_text'']\<rparr>]"

text \<open>The enumeration a tool's schema declares for a property, if it declares one.\<close>

definition declared_enum :: "string \<Rightarrow> string \<Rightarrow> string list option" where
  "declared_enum tool field =
     (case find (\<lambda>t. name t = tool) tools of
        None \<Rightarrow> None
      | Some t \<Rightarrow> (case map_of (properties t) field of None \<Rightarrow> None | Some p \<Rightarrow> enum p))"

section \<open>The dispatcher\<close>

text \<open>
  The handler of \<^verbatim>\<open>CallToolRequestSchema\<close> (lines 167 to 235).  A protocol fault is an
  \<^verbatim>\<open>McpError\<close> with the code and the message the source constructs it with.  The HTTP
  client is the platform's: a request either resolves to a response, of which the code reads
  \<^verbatim>\<open>data\<close>, or rejects with a thrown value.  The handler tells three kinds of thrown
  value apart: an axios error (its message and, when a response was received, the status
  and the body), another \<^verbatim>\<open>Error\<close> (its message), and anything else.  The type \<open>'d\<close>
  is the response body as axios hands it over.
\<close>

datatype ErrorCode = InvalidParams | MethodNotFound

record McpError =
  code :: ErrorCode
  message :: string

datatype http_method = GET | PUT | POST

record Request =
  verb :: http_method
  path :: string
  params :: "(string \<times> string) list option"
  data :: "(string \<times> string) list option"

record 'd Response =
  status :: nat
  body :: 'd

datatype 'd js_exn =
    AxiosError string "'d Response option"
  | PlainError string
  | NonError

datatype 'd axios_result = Resolved 'd | Rejected "'d js_exn"

datatype 'd thrown = Protocol McpError | Other "'d js_exn"

record TextContent =
  item_type :: string
  item_text :: string

text \<open>
  The returned object: \<^verbatim>\<open>{ content: [...] }\<close> on success, with no
  \<^verbatim>\<open>isError\<close> property (\<open>None\<close>), and \<^verbatim>\<open>{ content: [...], isError: true }\<close>
  from the \<^verbatim>\<open>catch\<close> block.
\<close>

record CallToolResult =
  content :: "TextContent list"
  isError :: "bool option"

text \<open>
  What the handler takes from the platform: the HTTP client, \<^verbatim>\<open>JSON.stringify(x)\<close>,
  \<^verbatim>\<open>JSON.stringify(x, null, 2)\<close> and the URL constructor.
\<close>

record 'd Platform =
  axios :: "Request \<Rightarrow> 'd axios_result"
  JSON_stringify :: "'d \<Rightarrow> string"
  JSON_stringify_pretty :: "'d \<Rightarrow> string"
  URL_ctor :: url_parser

text \<open>A number in a template literal: its decimal digits.\<close>

fun string_of_nat :: "nat \<Rightarrow> string" where
  "string_of_nat n =
     (if n < 10 then [''0123456789'' ! n]
      else string_of_nat (n div 10) @ [''0123456789'' ! (n mod 10)])"

declare string_of_nat.simps [simp del]

text \<open>
  \<^verbatim>\<open>const response = await this.axiosInstance...; return { content: [...] }\<close>: the
  request is issued (and recorded), a resolved response is wrapped, a rejection is thrown.
\<close>

definition perform :: "'d Platform \<Rightarrow> Request \<Rightarrow> ('d thrown + CallToolResult) \<times> Request list" where
  "perform P req =
     (case axios P req of
        Resolved d \<Rightarrow>
          (Inr \<lparr>content = [\<lparr>item_type = ''text'', item_text = JSON_stringify_pretty P d\<rparr>], isError = None\<rparr>,
           [req])
      | Rejected e \<Rightarrow> (Inl (Other e), [req]))"

definition throw_McpError :: "ErrorCode \<Rightarrow> string \<Rightarrow> ('d thrown + CallToolResult) \<times> Request list" where
  "throw_McpError c m = (Inl (Protocol \<lparr>code = c, message = m\<rparr>), [])"

text \<open>The query parameters of \<^verbatim>\<open>list_sentry_issues\<close> (lines 185 to 187).\<close>

definition list_issues_params :: "js_value \<Rightarrow> (string \<times> string) list" where
  "list_issues_params args =
     (let params0 = (if truthy (get_prop args ''query'')
                     then [(''query'', asString (get_prop args ''query''))] else []);
          params1 = (if truthy (get_prop args ''status'')
                     then [(''query'',
                            (case map_of params0 ''query'' of
                               Some q \<Rightarrow> if q \<noteq> [] then q @ '' '' else []
                             | None \<Rightarrow> []) @ ''is:'' @ asString (get_prop args ''status''))]
                     else params0)
      in params1)"

text \<open>The \<^verbatim>\<open>try\<close> block: the chain of comparisons on the tool name.\<close>

definition try_block ::
  "'d Platform \<Rightarrow> EffectiveConfig \<Rightarrow> string \<Rightarrow> js_value \<Rightarrow> ('d thrown + CallToolResult) \<times> Request list"
where
  "try_block P cfg toolName args =
     (if toolName = ''get_sentry_issue'' then
        if \<not> isValidGetIssueArgs args
        then throw_McpError InvalidParams ''Invalid args for get_sentry_issue.''
        else (case getIssueId (URL_ctor P) (asString (get_prop args ''issue_id_or_url'')) of
                Inl (TypeError m) \<Rightarrow> (Inl (Other (PlainError m)), [])
              | Inr issueId \<Rightarrow>
                  if issueId = None \<or> issueId = Some []
                  then throw_McpError InvalidParams
                         (''Could not extract issue ID from: '' @
                          asString (get_prop args ''issue_id_or_url''))
                  else perform P \<lparr>verb = GET, path = ''issues/'' @ the issueId @ ''/'',
                                  params = None, data = None\<rparr>)
      else if toolName = ''list_sentry_projects'' then
        perform P \<lparr>verb = GET, path = ''organizations/'' @ ORG_SLUG cfg @ ''/projects/'',
                   params = None, data = None\<rparr>
      else if toolName = ''list_sentry_issues'' then
        if \<not> isValidListIssuesArgs args
        then throw_McpError InvalidParams ''Invalid args for list_sentry_issues.''
        else perform P \<lparr>verb = GET,
                        path = ''projects/'' @ ORG_SLUG cfg @ ''/'' @
                               asString (get_prop args ''project_slug'') @ ''/issues/'',
                        params = Some (list_issues_params args), data = None\<rparr>
      else if toolName = ''get_sentry_event_details'' then
        if \<not> isValidGetEventArgs args
        then throw_McpError InvalidParams ''Invalid args for get_sentry_event_details.''
        else perform P \<lparr>verb = GET,
                        path = ''projects/'' @ ORG_SLUG cfg @ ''/'' @
                               asString (get_prop args ''project_slug'') @ ''/events/'' @
                               asString (get_prop args ''event_id'') @ ''/'',
                        params = None, data = None\<rparr>
      else if toolName = ''update_sentry_issue_status'' then
        if \<not> isValidUpdateIssueArgs args
        then throw_McpError InvalidParams ''Invalid args for update_sentry_issue_status.''
        else perform P \<lparr>verb = PUT,
                        path = ''issues/'' @ asString (get_prop args ''issue_id'') @ ''/'',
                        params = None,
                        data = Some [(''status'', asString (get_prop args ''status''))]\<rparr>
      else if toolName = ''create_sentry_issue_comment'' then
        if \<not> isValidCreateCommentArgs args
        then throw_McpError InvalidParams ''Invalid args for create_sentry_issue_comment.''
        else perform P \<lparr>verb = POST,
                        path = ''issues/'' @ asString (get_prop args ''issue_id'') @ ''/comments/'',
                        params = None,
                        data = Some [(''text'', asString (get_prop args ''comment_text''))]\<rparr>
      else throw_McpError MethodNotFound (''Unknown tool: '' @ toolName))"

text \<open>
  The message the \<^verbatim>\<open>catch\<close> block builds for a thrown value that is not an
  \<^verbatim>\<open>McpError\<close> (lines 210 to 229).
\<close>

definition errorMessage :: "'d Platform \<Rightarrow> string \<Rightarrow> 'd js_exn \<Rightarrow> string" where
  "errorMessage P toolName error =
     (case error of
        AxiosError msg response \<Rightarrow>
          (let m0 = ''Sentry API error for '' @ toolName @ '': '' @ msg
           in case response of
                None \<Rightarrow> m0
              | Some r \<Rightarrow>
                  (let m1 = m0 @ '' Status: '' @ string_of_nat (status r) @ ''. Response: '' @
                            JSON_stringify P (body r)
                   in if status r \<ge> 400 \<and> status r < 500
                      then (if status r = 401 \<or> status r = 403
                            then ''Sentry API permission denied for '' @ toolName @
                                 ''. Check auth token validity and permissions.''
                            else if status r = 404
                            then ''Sentry resource not found for '' @ toolName @
                                 ''. Check IDs/slugs.''
                            else m1)
                      else m1))
      | PlainError msg \<Rightarrow> msg
      | NonError \<Rightarrow> ''Failed to execute tool '' @ toolName @ ''.'')"

text \<open>
  The handler: an \<^verbatim>\<open>McpError\<close> is thrown on to the transport (\<open>Inl\<close>), any other
  thrown value becomes an envelope with \<^verbatim>\<open>isError: true\<close>.  The second component
  lists the HTTP requests issued.
\<close>

definition callTool ::
  "'d Platform \<Rightarrow> EffectiveConfig \<Rightarrow> string \<Rightarrow> js_value \<Rightarrow> (McpError + CallToolResult) \<times> Request list"
where
  "callTool P cfg toolName args =
     (case try_block P cfg toolName args of
        (Inr result, reqs) \<Rightarrow> (Inr result, reqs)
      | (Inl (Protocol e), reqs) \<Rightarrow> (Inl e, reqs)
      | (Inl (Other e), reqs) \<Rightarrow>
          (Inr \<lparr>content = [\<lparr>item_type = ''text'', item_text = errorMessage P toolName e\<rparr>],
                isError = Some True\<rparr>, reqs))"

section \<open>Reference instances\<close>

text \<open>
  A continuation of the URL parser for plain hierarchical URLs, used to evaluate the
  definitions on examples: the slashes before the authority are skipped, the host runs up
  to the next \<^verbatim>\<open>/\<close>, \<^verbatim>\<open>?\<close> or \<^verbatim>\<open>#\<close> and must not be empty, and the path runs
  up to \<^verbatim>\<open>?\<close> or \<^verbatim>\<open>#\<close> (\<^verbatim>\<open>/\<close> when empty).  It agrees with the URL standard
  on \<^verbatim>\<open>http\<close> and \<^verbatim>\<open>https\<close> URLs whose host is a lower-case domain name without
  credentials or port and whose path has only letters, digits, \<^verbatim>\<open>-\<close>, \<^verbatim>\<open>_\<close> and
  \<^verbatim>\<open>/\<close>, which is all the examples use.  The general theorems below hold for every
  parser.
\<close>

definition plain_after_scheme :: "string \<Rightarrow> string \<Rightarrow> js_error + URL" where
  "plain_after_scheme scheme rest =
     (let r = dropWhile (\<lambda>c. c = CHR ''/'') rest;
          h = takeWhile (\<lambda>c. c \<notin> set ''/?#'') r;
          p = takeWhile (\<lambda>c. c \<notin> set ''?#'') (dropWhile (\<lambda>c. c \<notin> set ''/?#'') r)
      in if h = [] then Inl (TypeError ''Invalid URL'')
         else Inr \<lparr>protocol = scheme @ '':'', host = h,
                   pathname = (if p = [] then ''/'' else p)\<rparr>)"

text \<open>
  A platform whose HTTP client answers every request with \<open>r\<close>, and whose response bodies
  are held as their JSON text.
\<close>

definition demo_platform :: "string axios_result \<Rightarrow> string Platform" where
  "demo_platform r =
     \<lparr>axios = (\<lambda>req. r), JSON_stringify = (\<lambda>d. d), JSON_stringify_pretty = (\<lambda>d. d),
      URL_ctor = new_URL plain_after_scheme\<rparr>"

definition demo_config :: EffectiveConfig where
  "demo_config =
     \<lparr>SENTRY_BASE_URL = ''https://sentry.example.com'', SENTRY_AUTH_TOKEN = ''secret'',
      ORG_SLUG = ''acme''\<rparr>"

section \<open>Lists, indices and the normaliser\<close>

lemma js_split_not_Nil: "js_split c s \<noteq> []"
  by (induction s) (auto split: list.splits)

lemma indexOf_absent: "x \<notin> set xs \<Longrightarrow> indexOf xs x = - 1"
  by (induction xs) (auto simp: Let_def)

lemma indexOf_first: "x \<notin> set pre \<Longrightarrow> indexOf (pre @ x # post) x = int (length pre)"
  by (induction pre) (auto simp: Let_def)

lemma getIssueId_cases:
  "getIssueId P s = Inr None \<or> (\<exists>d. getIssueId P s = Inr (Some d) \<and> test_digits d)"
  by (auto simp: getIssueId_def Let_def split: sum.splits)

lemma getIssueId_first:
  assumes "P s = Inr u" and "js_split CHR ''/'' (pathname u) = pre @ ''issues'' # d # post"
    and "''issues'' \<notin> set pre"
  shows "getIssueId P s = (if test_digits d then Inr (Some d) else Inr None)"
  using assms by (simp add: getIssueId_def Let_def indexOf_first nat_add_distrib nth_append)

lemma getIssueId_issues_last:
  assumes "P s = Inr u" and "js_split CHR ''/'' (pathname u) = pre @ [''issues'']"
    and "''issues'' \<notin> set pre"
  shows "getIssueId P s = Inr None"
  using assms indexOf_first [of "''issues''" pre "[]"]
  by (simp add: getIssueId_def Let_def)

section \<open>Digit strings are not URLs\<close>

lemma is_digit_not_alpha: "is_digit c \<Longrightarrow> \<not> is_alpha c"
  by (auto simp: is_digit_def is_alpha_def)

lemma is_digit_not_c0: "is_digit c \<Longrightarrow> \<not> is_c0_or_space c"
  by (auto simp: is_digit_def is_c0_or_space_def)

lemma is_digit_not_tab: "is_digit c \<Longrightarrow> \<not> is_tab_or_newline c"
  by (auto simp: is_digit_def is_tab_or_newline_def)

lemma dropWhile_id: "xs \<noteq> [] \<Longrightarrow> \<not> Q (hd xs) \<Longrightarrow> dropWhile Q xs = xs"
  by (cases xs) auto

lemma strip_input_digits:
  assumes "test_digits s"
  shows "strip_input s = s"
proof -
  from assms have ne: "s \<noteq> []" and all: "\<forall>c \<in> set s. is_digit c"
    by (auto simp: test_digits_def list_all_iff)
  from ne all have "\<not> is_c0_or_space (hd s)" by (simp add: is_digit_not_c0)
  with ne have 1: "dropWhile is_c0_or_space s = s" by (rule dropWhile_id)
  from ne all have "\<not> is_c0_or_space (hd (rev s))"
    by (simp add: hd_rev is_digit_not_c0)
  with ne have 2: "dropWhile is_c0_or_space (rev s) = rev s" by (simp add: dropWhile_id)
  from all have 3: "filter (\<lambda>c. \<not> is_tab_or_newline c) s = s"
    by (simp add: is_digit_not_tab)
  show ?thesis by (simp add: strip_input_def 1 2 3)
qed

lemma split_scheme_digits: "test_digits s \<Longrightarrow> split_scheme s = None"
  by (cases s) (auto simp: split_scheme_def test_digits_def is_digit_not_alpha)

lemma new_URL_digits: "test_digits s \<Longrightarrow> new_URL R s = Inl (TypeError ''Invalid URL'')"
  by (simp add: new_URL_def strip_input_digits split_scheme_digits)

section \<open>The shape of a dispatch\<close>

lemma try_block_cases:
  "(\<exists>c m. try_block P cfg t a = (Inl (Protocol \<lparr>code = c, message = m\<rparr>), [])) \<or>
   (\<exists>req. try_block P cfg t a = perform P req)"
proof -
  define ok :: "('a thrown + CallToolResult) \<times> Request list \<Rightarrow> bool" where
    "ok x \<longleftrightarrow> (\<exists>c m. x = (Inl (Protocol \<lparr>code = c, message = m\<rparr>), [])) \<or>
              (\<exists>req. x = perform P req)" for x
  have T: "ok (throw_McpError c m)" for c m
    by (simp add: ok_def throw_McpError_def)
  have Pf: "ok (perform P r)" for r
    unfolding ok_def by blast
  have I: "ok x \<Longrightarrow> ok y \<Longrightarrow> ok (if b then x else y)" for b x y
    by simp
  have G: "ok (case getIssueId (URL_ctor P) s of
                 Inl (TypeError m) \<Rightarrow> (Inl (Other (PlainError m)), [])
               | Inr issueId \<Rightarrow>
                   if issueId = None \<or> issueId = Some [] then throw_McpError c0 m0
                   else perform P (f issueId))" for s c0 m0 f
    using getIssueId_cases [of "URL_ctor P" s] by (auto simp: T Pf)
  have "ok (try_block P cfg t a)"
    unfolding try_block_def by (intro I T Pf G)
  then show ?thesis by (simp add: ok_def)
qed

lemma callTool_of_perform:
  "try_block P cfg t a = perform P req \<Longrightarrow>
   callTool P cfg t a =
     (case axios P req of
        Resolved d \<Rightarrow> (Inr \<lparr>content = [\<lparr>item_type = ''text'', item_text = JSON_stringify_pretty P d\<rparr>], isError = None\<rparr>, [req])
      | Rejected e \<Rightarrow> (Inr \<lparr>content = [\<lparr>item_type = ''text'', item_text = errorMessage P t e\<rparr>], isError = Some True\<rparr>, [req]))"
  by (simp add: callTool_def perform_def split: axios_result.splits)

lemma callTool_issued:
  assumes "snd (callTool P cfg t a) = [req]"
  shows "try_block P cfg t a = perform P req"
proof -
  from try_block_cases [of P cfg t a] show ?thesis
  proof
    assume "\<exists>c m. try_block P cfg t a = (Inl (Protocol \<lparr>code = c, message = m\<rparr>), [])"
    with assms show ?thesis by (auto simp: callTool_def)
  next
    assume "\<exists>r. try_block P cfg t a = perform P r"
    then obtain r where r: "try_block P cfg t a = perform P r" by blast
    from callTool_of_perform [OF r] have "snd (callTool P cfg t a) = [r]"
      by (simp split: axios_result.splits)
    with assms r show ?thesis by simp
  qed
qed

lemma tool_names:
  "set (map name tools) =
     {''get_sentry_issue'', ''list_sentry_projects'', ''list_sentry_issues'',
      ''get_sentry_event_details'', ''update_sentry_issue_status'', ''create_sentry_issue_comment''}"
  by (simp add: tools_def)

lemma callTool_throw:
  "try_block P cfg t a = throw_McpError c m \<Longrightarrow>
   callTool P cfg t a = (Inl \<lparr>code = c, message = m\<rparr>, [])"
  by (simp add: callTool_def throw_McpError_def)

section \<open>Startup and validators\<close>

lemma startup_Inr:
  assumes "startup parse env rc = Inr cfg"
  shows "\<exists>u. js_or (url env) (url rc) = Some u \<and> u \<noteq> [] \<and> (\<exists>x. parse u = Inr x) \<and>
             SENTRY_BASE_URL cfg = base_url_of u"
proof -
  from assms have nf: "\<not> falsy (js_or (url env) (url rc))"
    by (auto simp: startup_def Let_def split: if_splits)
  then obtain u where u: "js_or (url env) (url rc) = Some u" "u \<noteq> []"
    by (auto simp: falsy_def split: option.splits)
  from assms u have "(\<exists>x. parse u = Inr x) \<and> SENTRY_BASE_URL cfg = base_url_of u"
    by (auto simp: startup_def Let_def split: if_splits sum.splits)
  with u show ?thesis by blast
qed

lemma isValidUpdateIssueArgs_status:
  "isValidUpdateIssueArgs args \<Longrightarrow>
     \<exists>s. get_prop args ''status'' = String s \<and> s \<in> set [''resolved'', ''ignored'', ''unresolved'']"
  unfolding isValidUpdateIssueArgs_def
  by (cases "get_prop args ''status''") auto

section \<open>Claims about the issue-reference normaliser\<close>

text \<open>
  C10.  Whatever the input and whatever the URL constructor does with it, \<^verbatim>\<open>getIssueId\<close>
  returns \<^verbatim>\<open>null\<close> or a string of one or more ASCII digits; nothing is thrown.
\<close>

theorem getIssueId_output_invariant:
  "getIssueId parse input = Inr None \<or>
   (\<exists>d. getIssueId parse input = Inr (Some d) \<and> test_digits d)"
  by (rule getIssueId_cases)

text \<open>The invariant at an issue URL.\<close>

theorem getIssueId_output_invariant_witness:
  "getIssueId (new_URL plain_after_scheme) ''https://sentry.example.com/issues/42/'' = Inr (Some ''42'') \<and>
   test_digits ''42''"
proof -
  have e: "getIssueId (new_URL plain_after_scheme) ''https://sentry.example.com/issues/42/'' = Inr (Some ''42'')"
    by code_simp
  from getIssueId_output_invariant [of "new_URL plain_after_scheme" "''https://sentry.example.com/issues/42/''"]
  show ?thesis unfolding e by simp
qed

text \<open>
  C7.  An input matching \<^verbatim>\<open>^\d+$\<close> is returned unchanged: it does not begin with a
  scheme, so \<^verbatim>\<open>new URL\<close> throws whatever the rest of the parser is, and the handler
  finds the input numeric.
\<close>

theorem getIssueId_numeric_unchanged:
  "test_digits input \<Longrightarrow> getIssueId (new_URL after_scheme) input = Inr (Some input)"
  by (simp add: getIssueId_def new_URL_digits)

text \<open>The input \<^verbatim>\<open>4711\<close>.\<close>

theorem getIssueId_numeric_unchanged_witness:
  "test_digits ''4711'' \<and> getIssueId (new_URL plain_after_scheme) ''4711'' = Inr (Some ''4711'')"
proof -
  have h: "test_digits ''4711''" by code_simp
  from h getIssueId_numeric_unchanged [OF h, of plain_after_scheme] show ?thesis by blast
qed

text \<open>
  C8, as stated, fails: the path of \<^verbatim>\<open>https://sentry.example.com/issues/123/issues/foo/\<close>
  contains an \<^verbatim>\<open>issues\<close> segment whose successor \<^verbatim>\<open>foo\<close> is not numeric, but
  \<^verbatim>\<open>indexOf\<close> finds the earlier \<^verbatim>\<open>issues\<close>, and the result is \<^verbatim>\<open>123\<close>, not
  \<^verbatim>\<open>null\<close>.
\<close>

theorem getIssueId_earlier_issues_counterexample:
  "new_URL plain_after_scheme ''https://sentry.example.com/issues/123/issues/foo/'' =
     Inr \<lparr>protocol = ''https:'', host = ''sentry.example.com'',
          pathname = ''/issues/123/issues/foo/''\<rparr> \<and>
   js_split CHR ''/'' ''/issues/123/issues/foo/'' =
     [[], ''issues'', ''123''] @ ''issues'' # ''foo'' # [[]] \<and>
   \<not> test_digits ''foo'' \<and>
   getIssueId (new_URL plain_after_scheme) ''https://sentry.example.com/issues/123/issues/foo/'' =
     Inr (Some ''123'') \<and>
   Inr (Some ''123'') \<noteq> (Inr None :: js_error + string option)"
  by code_simp

text \<open>
  C8, amended.  \<^verbatim>\<open>getIssueId\<close> returns \<^verbatim>\<open>null\<close>, and throws nothing, in each of
  these cases: the input parses as a URL and the first \<^verbatim>\<open>issues\<close> segment of its path
  is directly followed by a segment that is not all digits; the input parses as a URL and
  the first \<^verbatim>\<open>issues\<close> segment is the last segment of its path; the input parses as a
  URL whose path has no \<^verbatim>\<open>issues\<close> segment; the input does not parse as a URL and is
  not numeric.
\<close>

theorem getIssueId_no_match:
  "(parse input = Inr u \<and> js_split CHR ''/'' (pathname u) = pre @ ''issues'' # d # post \<and>
      ''issues'' \<notin> set pre \<and> \<not> test_digits d
      \<longrightarrow> getIssueId parse input = Inr None) \<and>
   (parse input = Inr u \<and> js_split CHR ''/'' (pathname u) = pre @ [''issues''] \<and>
      ''issues'' \<notin> set pre
      \<longrightarrow> getIssueId parse input = Inr None) \<and>
   (parse input = Inr u \<and> ''issues'' \<notin> set (js_split CHR ''/'' (pathname u))
      \<longrightarrow> getIssueId parse input = Inr None) \<and>
   (parse input = Inl e \<and> \<not> test_digits input \<longrightarrow> getIssueId parse input = Inr None)"
proof (intro conjI impI)
  assume "parse input = Inr u \<and> js_split CHR ''/'' (pathname u) = pre @ ''issues'' # d # post \<and>
      ''issues'' \<notin> set pre \<and> \<not> test_digits d"
  then show "getIssueId parse input = Inr None" by (simp add: getIssueId_first)
next
  assume "parse input = Inr u \<and> js_split CHR ''/'' (pathname u) = pre @ [''issues''] \<and>
      ''issues'' \<notin> set pre"
  then show "getIssueId parse input = Inr None" by (simp add: getIssueId_issues_last)
next
  assume "parse input = Inr u \<and> ''issues'' \<notin> set (js_split CHR ''/'' (pathname u))"
  then show "getIssueId parse input = Inr None"
    by (simp add: getIssueId_def Let_def indexOf_absent)
next
  assume "parse input = Inl e \<and> \<not> test_digits input"
  then show "getIssueId parse input = Inr None" by (simp add: getIssueId_def)
qed

text \<open>
  One input for each case: \<^verbatim>\<open>issues\<close> followed by \<^verbatim>\<open>latest\<close>, \<^verbatim>\<open>issues\<close> as
  the last segment, a path without \<^verbatim>\<open>issues\<close>, and \<^verbatim>\<open>abc\<close>.
\<close>

theorem getIssueId_no_match_witness:
  "getIssueId (new_URL plain_after_scheme) ''https://sentry.example.com/issues/latest/'' = Inr None \<and>
   getIssueId (new_URL plain_after_scheme) ''https://sentry.example.com/acme/issues'' = Inr None \<and>
   getIssueId (new_URL plain_after_scheme) ''https://sentry.example.com/organizations/acme/'' = Inr None \<and>
   getIssueId (new_URL plain_after_scheme) ''abc'' = Inr None"
proof -
  let ?P = "new_URL plain_after_scheme"
  let ?u1 = "\<lparr>protocol = ''https:'', host = ''sentry.example.com'', pathname = ''/issues/latest/''\<rparr>"
  let ?u2 = "\<lparr>protocol = ''https:'', host = ''sentry.example.com'', pathname = ''/organizations/acme/''\<rparr>"
  let ?u3 = "\<lparr>protocol = ''https:'', host = ''sentry.example.com'', pathname = ''/acme/issues''\<rparr>"
  have a1: "?P ''https://sentry.example.com/issues/latest/'' = Inr ?u1" by code_simp
  have a2: "js_split CHR ''/'' (pathname ?u1) = [[]] @ ''issues'' # ''latest'' # [[]]" by code_simp
  have a3: "''issues'' \<notin> set [[]]" by simp
  have a4: "\<not> test_digits ''latest''" by code_simp
  have l1: "?P ''https://sentry.example.com/acme/issues'' = Inr ?u3" by code_simp
  have l2: "js_split CHR ''/'' (pathname ?u3) = [[], ''acme''] @ [''issues'']" by code_simp
  have l3: "''issues'' \<notin> set [[], ''acme'']" by simp
  have b1: "?P ''https://sentry.example.com/organizations/acme/'' = Inr ?u2" by code_simp
  have b2: "''issues'' \<notin> set (js_split CHR ''/'' (pathname ?u2))" by code_simp
  have c1: "?P ''abc'' = Inl (TypeError ''Invalid URL'')" by code_simp
  have c2: "\<not> test_digits ''abc''" by code_simp
  from getIssueId_no_match
         [of ?P "''https://sentry.example.com/issues/latest/''" ?u1 "[[]]" "''latest''" "[[]]"]
       a1 a2 a3 a4
  have r1: "getIssueId ?P ''https://sentry.example.com/issues/latest/'' = Inr None" by blast
  from getIssueId_no_match [of ?P "''https://sentry.example.com/acme/issues''" ?u3 "[[], ''acme'']"]
       l1 l2 l3
  have r2: "getIssueId ?P ''https://sentry.example.com/acme/issues'' = Inr None" by blast
  from getIssueId_no_match [of ?P "''https://sentry.example.com/organizations/acme/''" ?u2] b1 b2
  have r3: "getIssueId ?P ''https://sentry.example.com/organizations/acme/'' = Inr None" by blast
  from getIssueId_no_match [of ?P "''abc''" _ _ _ _ "TypeError ''Invalid URL''"] c1 c2
  have r4: "getIssueId ?P ''abc'' = Inr None" by blast
  from r1 r2 r3 r4 show ?thesis by blast
qed

text \<open>
  C2, as stated, fails: in \<^verbatim>\<open>https://sentry.example.com/issues/foo/issues/123/\<close> the
  segment \<^verbatim>\<open>issues\<close> is followed by the digits \<^verbatim>\<open>123\<close>, but
  \<^verbatim>\<open>indexOf\<close> finds the earlier \<^verbatim>\<open>issues\<close>, whose successor \<^verbatim>\<open>foo\<close> is not
  numeric, and the result is \<^verbatim>\<open>null\<close>.
\<close>

theorem getIssueId_later_issues_counterexample:
  "new_URL plain_after_scheme ''https://sentry.example.com/issues/foo/issues/123/'' =
     Inr \<lparr>protocol = ''https:'', host = ''sentry.example.com'',
          pathname = ''/issues/foo/issues/123/''\<rparr> \<and>
   js_split CHR ''/'' ''/issues/foo/issues/123/'' =
     [[], ''issues'', ''foo''] @ ''issues'' # ''123'' # [[]] \<and>
   test_digits ''123'' \<and>
   getIssueId (new_URL plain_after_scheme) ''https://sentry.example.com/issues/foo/issues/123/'' \<noteq>
     Inr (Some ''123'')"
  by code_simp

text \<open>
  C2, amended.  When the input parses as a URL and the first path segment equal to
  \<^verbatim>\<open>issues\<close> is directly followed by a segment \<open>d\<close>, \<^verbatim>\<open>getIssueId\<close> returns
  \<open>d\<close> if \<open>d\<close> is one or more ASCII digits and \<^verbatim>\<open>null\<close> otherwise, whatever follows
  later in the path: a later \<^verbatim>\<open>issues\<close> segment followed by digits is not looked at.
\<close>

theorem getIssueId_url_first_issues:
  assumes "parse input = Inr u"
    and "js_split CHR ''/'' (pathname u) = pre @ ''issues'' # d # post"
    and "''issues'' \<notin> set pre"
  shows "getIssueId parse input = (if test_digits d then Inr (Some d) else Inr None)"
  using assms by (rule getIssueId_first)

text \<open>
  An issue URL of an organisation, with a trailing path, and a URL whose first
  \<^verbatim>\<open>issues\<close> segment is followed by \<^verbatim>\<open>foo\<close> and whose second one by \<^verbatim>\<open>123\<close>.
\<close>

theorem getIssueId_url_first_issues_witness:
  "new_URL plain_after_scheme ''https://sentry.example.com/organizations/acme/issues/4711/events/'' =
     Inr \<lparr>protocol = ''https:'', host = ''sentry.example.com'',
          pathname = ''/organizations/acme/issues/4711/events/''\<rparr> \<and>
   js_split CHR ''/'' ''/organizations/acme/issues/4711/events/'' =
     [[], ''organizations'', ''acme''] @ ''issues'' # ''4711'' # [''events'', []] \<and>
   ''issues'' \<notin> set [[], ''organizations'', ''acme''] \<and>
   test_digits ''4711'' \<and>
   getIssueId (new_URL plain_after_scheme)
     ''https://sentry.example.com/organizations/acme/issues/4711/events/'' = Inr (Some ''4711'') \<and>
   new_URL plain_after_scheme ''https://sentry.example.com/issues/foo/issues/123/'' =
     Inr \<lparr>protocol = ''https:'', host = ''sentry.example.com'',
          pathname = ''/issues/foo/issues/123/''\<rparr> \<and>
   js_split CHR ''/'' ''/issues/foo/issues/123/'' =
     [[]] @ ''issues'' # ''foo'' # [''issues'', ''123'', []] \<and>
   ''issues'' \<notin> set [[]] \<and>
   \<not> test_digits ''foo'' \<and>
   getIssueId (new_URL plain_after_scheme) ''https://sentry.example.com/issues/foo/issues/123/'' =
     Inr None"
proof -
  let ?P = "new_URL plain_after_scheme"
  let ?u = "\<lparr>protocol = ''https:'', host = ''sentry.example.com'',
          pathname = ''/organizations/acme/issues/4711/events/''\<rparr>"
  let ?v = "\<lparr>protocol = ''https:'', host = ''sentry.example.com'',
          pathname = ''/issues/foo/issues/123/''\<rparr>"
  have h1: "?P ''https://sentry.example.com/organizations/acme/issues/4711/events/'' = Inr ?u"
    by code_simp
  have h2': "js_split CHR ''/'' ''/organizations/acme/issues/4711/events/'' =
     [[], ''organizations'', ''acme''] @ ''issues'' # ''4711'' # [''events'', []]"
    by code_simp
  then have h2: "js_split CHR ''/'' (pathname ?u) =
     [[], ''organizations'', ''acme''] @ ''issues'' # ''4711'' # [''events'', []]"
    by simp
  have h3: "''issues'' \<notin> set [[], ''organizations'', ''acme'']" by simp
  have h4: "test_digits ''4711''" by code_simp
  have k1: "?P ''https://sentry.example.com/issues/foo/issues/123/'' = Inr ?v" by code_simp
  have k2': "js_split CHR ''/'' ''/issues/foo/issues/123/'' =
     [[]] @ ''issues'' # ''foo'' # [''issues'', ''123'', []]"
    by code_simp
  then have k2: "js_split CHR ''/'' (pathname ?v) =
     [[]] @ ''issues'' # ''foo'' # [''issues'', ''123'', []]"
    by simp
  have k3: "''issues'' \<notin> set [[]]" by simp
  have k4: "\<not> test_digits ''foo''" by code_simp
  from getIssueId_url_first_issues
         [of ?P _ ?u "[[], ''organizations'', ''acme'']" "''4711''" "[''events'', []]",
          OF h1 h2 h3] h4
  have r1: "getIssueId ?P ''https://sentry.example.com/organizations/acme/issues/4711/events/'' =
      Inr (Some ''4711'')"
    by simp
  from getIssueId_url_first_issues
         [of ?P _ ?v "[[]]" "''foo''" "[''issues'', ''123'', []]", OF k1 k2 k3] k4
  have r2: "getIssueId ?P ''https://sentry.example.com/issues/foo/issues/123/'' = Inr None"
    by simp
  from h1 h2' h3 h4 r1 k1 k2' k3 k4 r2 show ?thesis by blast
qed

section \<open>Claims about the startup configuration\<close>

text \<open>
  C9, as stated, fails: \<^verbatim>\<open>https://sentry.example.com//\<close> passes the URL check, one
  slash is dropped, and the effective base URL \<^verbatim>\<open>https://sentry.example.com/\<close> still
  ends with a slash; the client is bound to \<^verbatim>\<open>https://sentry.example.com//api/0/\<close>.
\<close>

theorem base_url_double_slash_counterexample:
  "new_URL plain_after_scheme ''https://sentry.example.com//'' =
     Inr \<lparr>protocol = ''https:'', host = ''sentry.example.com'', pathname = ''//''\<rparr> \<and>
   startup (new_URL plain_after_scheme)
     \<lparr>url = Some ''https://sentry.example.com//'', token = Some ''secret'', org = Some ''acme''\<rparr>
     \<lparr>url = None, token = None, org = None\<rparr> =
     Inr \<lparr>SENTRY_BASE_URL = ''https://sentry.example.com/'', SENTRY_AUTH_TOKEN = ''secret'',
          ORG_SLUG = ''acme''\<rparr> \<and>
   endsWith_slash ''https://sentry.example.com/'' \<and>
   axios_baseURL \<lparr>SENTRY_BASE_URL = ''https://sentry.example.com/'', SENTRY_AUTH_TOKEN = ''secret'',
          ORG_SLUG = ''acme''\<rparr> = ''https://sentry.example.com//api/0/''"
  by code_simp

text \<open>
  C9, amended.  When startup succeeds, the effective base URL is the configured
  \<^verbatim>\<open>SENTRY_URL\<close> (the environment's, else the rc file's) without its last character
  when that is a slash, and unchanged otherwise; it has no trailing slash unless the
  configured URL ends with two slashes.
\<close>

theorem base_url_one_slash_removed:
  assumes "startup parse env rc = Inr cfg"
  shows "\<exists>u. js_or (url env) (url rc) = Some u \<and> (\<exists>x. parse u = Inr x) \<and>
           SENTRY_BASE_URL cfg = (if endsWith_slash u then butlast u else u) \<and>
           (\<not> (endsWith_slash u \<and> endsWith_slash (butlast u))
              \<longrightarrow> \<not> endsWith_slash (SENTRY_BASE_URL cfg))"
proof -
  from startup_Inr [OF assms] obtain u where
    u: "js_or (url env) (url rc) = Some u" "\<exists>x. parse u = Inr x"
       "SENTRY_BASE_URL cfg = base_url_of u"
    by blast
  then have "SENTRY_BASE_URL cfg = (if endsWith_slash u then butlast u else u)"
    by (simp add: base_url_of_def slice_0_minus1_def)
  with u(1,2) show ?thesis by auto
qed

text \<open>
  A URL with one trailing slash from the environment, which takes precedence over the rc
  file.
\<close>

theorem base_url_one_slash_removed_witness:
  "startup (new_URL plain_after_scheme)
     \<lparr>url = Some ''https://sentry.example.com/'', token = Some ''secret'', org = None\<rparr>
     \<lparr>url = Some ''https://other.example.com'', token = None, org = Some ''acme''\<rparr> =
     Inr demo_config \<and>
   \<not> (endsWith_slash ''https://sentry.example.com/'' \<and>
      endsWith_slash (butlast ''https://sentry.example.com/'')) \<and>
   SENTRY_BASE_URL demo_config = ''https://sentry.example.com'' \<and>
   \<not> endsWith_slash (SENTRY_BASE_URL demo_config)"
proof -
  let ?env = "\<lparr>url = Some ''https://sentry.example.com/'', token = Some ''secret'', org = None\<rparr>"
  let ?rc = "\<lparr>url = Some ''https://other.example.com'', token = None, org = Some ''acme''\<rparr>"
  have h: "startup (new_URL plain_after_scheme) ?env ?rc = Inr demo_config" by code_simp
  have j: "js_or (url ?env) (url ?rc) = Some ''https://sentry.example.com/''" by code_simp
  have n: "\<not> (endsWith_slash ''https://sentry.example.com/'' \<and>
      endsWith_slash (butlast ''https://sentry.example.com/''))" by code_simp
  have b: "SENTRY_BASE_URL demo_config = ''https://sentry.example.com''" by code_simp
  from base_url_one_slash_removed [OF h] j n have "\<not> endsWith_slash (SENTRY_BASE_URL demo_config)"
    by auto
  with h n b show ?thesis by blast
qed

section \<open>Claims about the validators\<close>

text \<open>
  C1.  The schema of \<^verbatim>\<open>list_sentry_issues\<close> declares the enumeration
  \<^verbatim>\<open>resolved\<close>, \<^verbatim>\<open>unresolved\<close>, \<^verbatim>\<open>ignored\<close> for \<^verbatim>\<open>status\<close>, yet its
  validator accepts the status \<^verbatim>\<open>bogus\<close>, and the dispatcher sends
  \<^verbatim>\<open>is:bogus\<close> upstream.  The validator of \<^verbatim>\<open>update_sentry_issue_status\<close> does
  check the enumeration.
\<close>

theorem list_issues_validator_accepts_undeclared_status:
  "declared_enum ''list_sentry_issues'' ''status'' = Some [''resolved'', ''unresolved'', ''ignored''] \<and>
   ''bogus'' \<notin> set [''resolved'', ''unresolved'', ''ignored''] \<and>
   isValidListIssuesArgs (Object [(''project_slug'', String ''web''), (''status'', String ''bogus'')]) \<and>
   declared_enum ''update_sentry_issue_status'' ''status'' = Some [''resolved'', ''ignored'', ''unresolved''] \<and>
   \<not> isValidUpdateIssueArgs (Object [(''issue_id'', String ''1''), (''status'', String ''bogus'')]) \<and>
   callTool (demo_platform (Resolved ''[]'')) demo_config ''list_sentry_issues''
     (Object [(''project_slug'', String ''web''), (''status'', String ''bogus'')]) =
     (Inr \<lparr>content = [\<lparr>item_type = ''text'', item_text = ''[]''\<rparr>], isError = None\<rparr>,
      [\<lparr>verb = GET, path = ''projects/acme/web/issues/'',
        params = Some [(''query'', ''is:bogus'')], data = None\<rparr>])"
  by code_simp

section \<open>Claims about the dispatcher\<close>

text \<open>
  C3, as stated, fails: on success the handler returns \<^verbatim>\<open>{ content: [...] }\<close>, an
  envelope without an \<^verbatim>\<open>isError\<close> property, not one whose \<^verbatim>\<open>isError\<close> is
  \<^verbatim>\<open>false\<close>.
\<close>

theorem isError_absent_on_success_counterexample:
  "callTool (demo_platform (Resolved ''{}'')) demo_config ''get_sentry_issue''
     (Object [(''issue_id_or_url'', String ''1'')]) =
     (Inr \<lparr>content = [\<lparr>item_type = ''text'', item_text = ''{}''\<rparr>], isError = None\<rparr>,
      [\<lparr>verb = GET, path = ''issues/1/'', params = None, data = None\<rparr>]) \<and>
   isError \<lparr>content = [\<lparr>item_type = ''text'', item_text = ''{}''\<rparr>], isError = None\<rparr> \<noteq> Some False"
  by code_simp

text \<open>
  C3, amended.  When the HTTP request a tool call issues resolves, the dispatcher returns an
  envelope whose single text item is the pretty-printed JSON of the response body and which
  has no \<^verbatim>\<open>isError\<close> property.
\<close>

theorem success_envelope:
  assumes "snd (callTool P cfg toolName args) = [req]" and "axios P req = Resolved d"
  shows "fst (callTool P cfg toolName args) =
           Inr \<lparr>content = [\<lparr>item_type = ''text'', item_text = JSON_stringify_pretty P d\<rparr>],
                isError = None\<rparr>"
  using callTool_of_perform [OF callTool_issued [OF assms(1)]] assms(2) by simp

text \<open>
  \<^verbatim>\<open>get_sentry_issue\<close> with an issue URL, answered with status 200.
\<close>

theorem success_envelope_witness:
  "snd (callTool (demo_platform (Resolved ''{}'')) demo_config ''get_sentry_issue''
          (Object [(''issue_id_or_url'', String ''https://sentry.example.com/issues/1/'')])) =
     [\<lparr>verb = GET, path = ''issues/1/'', params = None, data = None\<rparr>] \<and>
   axios (demo_platform (Resolved ''{}''))
     \<lparr>verb = GET, path = ''issues/1/'', params = None, data = None\<rparr> = Resolved ''{}'' \<and>
   fst (callTool (demo_platform (Resolved ''{}'')) demo_config ''get_sentry_issue''
          (Object [(''issue_id_or_url'', String ''https://sentry.example.com/issues/1/'')])) =
     Inr \<lparr>content = [\<lparr>item_type = ''text'', item_text = ''{}''\<rparr>], isError = None\<rparr>"
proof -
  let ?P = "demo_platform (Resolved ''{}'')"
  let ?req = "\<lparr>verb = GET, path = ''issues/1/'', params = None, data = None\<rparr>"
  have h1: "snd (callTool ?P demo_config ''get_sentry_issue''
          (Object [(''issue_id_or_url'', String ''https://sentry.example.com/issues/1/'')])) = [?req]"
    by code_simp
  have h2: "axios ?P ?req = Resolved ''{}''" by (simp add: demo_platform_def)
  have p: "JSON_stringify_pretty ?P ''{}'' = ''{}''" by (simp add: demo_platform_def)
  from success_envelope [OF h1 h2] h1 h2 show ?thesis unfolding p by blast
qed

text \<open>
  C4.  When the HTTP request a tool call issues is rejected, the dispatcher returns an
  envelope with \<^verbatim>\<open>isError: true\<close>, never a protocol fault.  For an axios error that
  carries a response, the message is: for status 401 or 403 the permission-denied text with
  the tool name, for status 404 the not-found text with the tool name, neither of them
  containing anything of the response body; for any other status the generic text with the
  axios message, the status code and the serialised response body.
\<close>

theorem upstream_failure_envelope:
  assumes "snd (callTool P cfg toolName args) = [req]" and "axios P req = Rejected e"
  shows "fst (callTool P cfg toolName args) =
           Inr \<lparr>content = [\<lparr>item_type = ''text'', item_text = errorMessage P toolName e\<rparr>],
                isError = Some True\<rparr> \<and>
         (\<forall>msg r. e = AxiosError msg (Some r) \<longrightarrow>
            (status r = 401 \<or> status r = 403 \<longrightarrow>
               errorMessage P toolName e =
                 ''Sentry API permission denied for '' @ toolName @
                 ''. Check auth token validity and permissions.'') \<and>
            (status r = 404 \<longrightarrow>
               errorMessage P toolName e =
                 ''Sentry resource not found for '' @ toolName @ ''. Check IDs/slugs.'') \<and>
            (status r \<noteq> 401 \<and> status r \<noteq> 403 \<and> status r \<noteq> 404 \<longrightarrow>
               errorMessage P toolName e =
                 ''Sentry API error for '' @ toolName @ '': '' @ msg @ '' Status: '' @
                 string_of_nat (status r) @ ''. Response: '' @ JSON_stringify P (body r)))"
proof (intro conjI allI impI)
  show "fst (callTool P cfg toolName args) =
           Inr \<lparr>content = [\<lparr>item_type = ''text'', item_text = errorMessage P toolName e\<rparr>],
                isError = Some True\<rparr>"
    using callTool_of_perform [OF callTool_issued [OF assms(1)]] assms(2) by simp
next
  fix msg r
  assume "e = AxiosError msg (Some r)" and "status r = 401 \<or> status r = 403"
  then show "errorMessage P toolName e =
      ''Sentry API permission denied for '' @ toolName @
      ''. Check auth token validity and permissions.''"
    by (auto simp: errorMessage_def Let_def)
next
  fix msg r
  assume "e = AxiosError msg (Some r)" and "status r = 404"
  then show "errorMessage P toolName e =
      ''Sentry resource not found for '' @ toolName @ ''. Check IDs/slugs.''"
    by (simp add: errorMessage_def Let_def)
next
  fix msg r
  assume "e = AxiosError msg (Some r)"
    and "status r \<noteq> 401 \<and> status r \<noteq> 403 \<and> status r \<noteq> 404"
  then show "errorMessage P toolName e =
      ''Sentry API error for '' @ toolName @ '': '' @ msg @ '' Status: '' @
      string_of_nat (status r) @ ''. Response: '' @ JSON_stringify P (body r)"
    by (simp add: errorMessage_def Let_def del: string_of_nat.simps)
qed

text \<open>
  \<^verbatim>\<open>get_sentry_issue\<close> answered with status 401, 404 and 500.
\<close>

theorem upstream_failure_envelope_witness:
  "snd (callTool
          (demo_platform (Rejected (AxiosError ''Request failed with status code 401''
             (Some \<lparr>status = 401, body = ''{}''\<rparr>))))
          demo_config ''get_sentry_issue'' (Object [(''issue_id_or_url'', String ''1'')])) =
     [\<lparr>verb = GET, path = ''issues/1/'', params = None, data = None\<rparr>] \<and>
   axios (demo_platform (Rejected (AxiosError ''Request failed with status code 401''
             (Some \<lparr>status = 401, body = ''{}''\<rparr>))))
     \<lparr>verb = GET, path = ''issues/1/'', params = None, data = None\<rparr> =
     Rejected (AxiosError ''Request failed with status code 401''
             (Some \<lparr>status = 401, body = ''{}''\<rparr>)) \<and>
   fst (callTool
          (demo_platform (Rejected (AxiosError ''Request failed with status code 401''
             (Some \<lparr>status = 401, body = ''{}''\<rparr>))))
          demo_config ''get_sentry_issue'' (Object [(''issue_id_or_url'', String ''1'')])) =
     Inr \<lparr>content = [\<lparr>item_type = ''text'', item_text =
            ''Sentry API permission denied for get_sentry_issue. Check auth token validity and permissions.''\<rparr>],
          isError = Some True\<rparr> \<and>
   fst (callTool
          (demo_platform (Rejected (AxiosError ''Request failed with status code 404''
             (Some \<lparr>status = 404, body = ''{}''\<rparr>))))
          demo_config ''get_sentry_issue'' (Object [(''issue_id_or_url'', String ''1'')])) =
     Inr \<lparr>content = [\<lparr>item_type = ''text'', item_text =
            ''Sentry resource not found for get_sentry_issue. Check IDs/slugs.''\<rparr>],
          isError = Some True\<rparr> \<and>
   fst (callTool
          (demo_platform (Rejected (AxiosError ''Request failed with status code 500''
             (Some \<lparr>status = 500, body = ''{}''\<rparr>))))
          demo_config ''get_sentry_issue'' (Object [(''issue_id_or_url'', String ''1'')])) =
     Inr \<lparr>content = [\<lparr>item_type = ''text'', item_text =
            ''Sentry API error for get_sentry_issue: Request failed with status code 500 Status: 500. Response: {}''\<rparr>],
          isError = Some True\<rparr>"
proof -
  let ?args = "Object [(''issue_id_or_url'', String ''1'')]"
  let ?req = "\<lparr>verb = GET, path = ''issues/1/'', params = None, data = None\<rparr>"
  let ?e1 = "AxiosError ''Request failed with status code 401'' (Some \<lparr>status = 401, body = ''{}''\<rparr>)"
  let ?e2 = "AxiosError ''Request failed with status code 404'' (Some \<lparr>status = 404, body = ''{}''\<rparr>)"
  let ?e3 = "AxiosError ''Request failed with status code 500'' (Some \<lparr>status = 500, body = ''{}''\<rparr>)"
  have rejected: "axios (demo_platform r) ?req = r" for r
    by (simp add: demo_platform_def)
  have str: "JSON_stringify (demo_platform r) d = d" for r d
    by (simp add: demo_platform_def)
  have n: "string_of_nat 500 = ''500''" by code_simp
  have i1: "snd (callTool (demo_platform (Rejected ?e1)) demo_config ''get_sentry_issue'' ?args) = [?req]"
    by code_simp
  have i2: "snd (callTool (demo_platform (Rejected ?e2)) demo_config ''get_sentry_issue'' ?args) = [?req]"
    by code_simp
  have i3: "snd (callTool (demo_platform (Rejected ?e3)) demo_config ''get_sentry_issue'' ?args) = [?req]"
    by code_simp
  from upstream_failure_envelope [OF i1 rejected]
  have 1: "fst (callTool (demo_platform (Rejected ?e1)) demo_config ''get_sentry_issue'' ?args) =
     Inr \<lparr>content = [\<lparr>item_type = ''text'', item_text =
            ''Sentry API permission denied for get_sentry_issue. Check auth token validity and permissions.''\<rparr>],
          isError = Some True\<rparr>"
    by simp
  from upstream_failure_envelope [OF i2 rejected]
  have 2: "fst (callTool (demo_platform (Rejected ?e2)) demo_config ''get_sentry_issue'' ?args) =
     Inr \<lparr>content = [\<lparr>item_type = ''text'', item_text =
            ''Sentry resource not found for get_sentry_issue. Check IDs/slugs.''\<rparr>],
          isError = Some True\<rparr>"
    by simp
  from upstream_failure_envelope [OF i3 rejected]
  have 3: "fst (callTool (demo_platform (Rejected ?e3)) demo_config ''get_sentry_issue'' ?args) =
     Inr \<lparr>content = [\<lparr>item_type = ''text'', item_text =
            ''Sentry API error for get_sentry_issue: Request failed with status code 500 Status: 500. Response: {}''\<rparr>],
          isError = Some True\<rparr>"
    by (simp add: n str)
  from i1 rejected [of "Rejected ?e1"] 1 2 3 show ?thesis by blast
qed

text \<open>
  C5.  A tool name that is not in the registry gives the protocol fault
  \<^verbatim>\<open>MethodNotFound\<close>; arguments that fail the tool's validator, and an issue
  reference from which no id can be extracted, give the protocol fault
  \<^verbatim>\<open>InvalidParams\<close>.  In each case the fault is thrown to the transport (\<open>Inl\<close>),
  not returned as an envelope, and no HTTP request is issued.
\<close>

theorem protocol_faults:
  "(toolName \<notin> set (map name tools) \<longrightarrow>
      callTool P cfg toolName args =
        (Inl \<lparr>code = MethodNotFound, message = ''Unknown tool: '' @ toolName\<rparr>, [])) \<and>
   (\<not> isValidGetIssueArgs args \<longrightarrow>
      callTool P cfg ''get_sentry_issue'' args =
        (Inl \<lparr>code = InvalidParams, message = ''Invalid args for get_sentry_issue.''\<rparr>, [])) \<and>
   (\<not> isValidListIssuesArgs args \<longrightarrow>
      callTool P cfg ''list_sentry_issues'' args =
        (Inl \<lparr>code = InvalidParams, message = ''Invalid args for list_sentry_issues.''\<rparr>, [])) \<and>
   (\<not> isValidGetEventArgs args \<longrightarrow>
      callTool P cfg ''get_sentry_event_details'' args =
        (Inl \<lparr>code = InvalidParams, message = ''Invalid args for get_sentry_event_details.''\<rparr>, [])) \<and>
   (\<not> isValidUpdateIssueArgs args \<longrightarrow>
      callTool P cfg ''update_sentry_issue_status'' args =
        (Inl \<lparr>code = InvalidParams, message = ''Invalid args for update_sentry_issue_status.''\<rparr>, [])) \<and>
   (\<not> isValidCreateCommentArgs args \<longrightarrow>
      callTool P cfg ''create_sentry_issue_comment'' args =
        (Inl \<lparr>code = InvalidParams, message = ''Invalid args for create_sentry_issue_comment.''\<rparr>, [])) \<and>
   (isValidGetIssueArgs args \<and>
    getIssueId (URL_ctor P) (asString (get_prop args ''issue_id_or_url'')) = Inr None \<longrightarrow>
      callTool P cfg ''get_sentry_issue'' args =
        (Inl \<lparr>code = InvalidParams,
              message = ''Could not extract issue ID from: '' @
                        asString (get_prop args ''issue_id_or_url'')\<rparr>, []))"
proof (intro conjI impI)
  assume "toolName \<notin> set (map name tools)"
  then have "try_block P cfg toolName args =
      throw_McpError MethodNotFound (''Unknown tool: '' @ toolName)"
    unfolding tool_names by (simp add: try_block_def)
  then show "callTool P cfg toolName args =
        (Inl \<lparr>code = MethodNotFound, message = ''Unknown tool: '' @ toolName\<rparr>, [])"
    by (rule callTool_throw)
next
  assume "\<not> isValidGetIssueArgs args"
  then have "try_block P cfg ''get_sentry_issue'' args =
      throw_McpError InvalidParams ''Invalid args for get_sentry_issue.''"
    by (simp add: try_block_def)
  then show "callTool P cfg ''get_sentry_issue'' args =
        (Inl \<lparr>code = InvalidParams, message = ''Invalid args for get_sentry_issue.''\<rparr>, [])"
    by (rule callTool_throw)
next
  assume "\<not> isValidListIssuesArgs args"
  then have "try_block P cfg ''list_sentry_issues'' args =
      throw_McpError InvalidParams ''Invalid args for list_sentry_issues.''"
    by (simp add: try_block_def)
  then show "callTool P cfg ''list_sentry_issues'' args =
        (Inl \<lparr>code = InvalidParams, message = ''Invalid args for list_sentry_issues.''\<rparr>, [])"
    by (rule callTool_throw)
next
  assume "\<not> isValidGetEventArgs args"
  then have "try_block P cfg ''get_sentry_event_details'' args =
      throw_McpError InvalidParams ''Invalid args for get_sentry_event_details.''"
    by (simp add: try_block_def)
  then show "callTool P cfg ''get_sentry_event_details'' args =
        (Inl \<lparr>code = InvalidParams, message = ''Invalid args for get_sentry_event_details.''\<rparr>, [])"
    by (rule callTool_throw)
next
  assume "\<not> isValidUpdateIssueArgs args"
  then have "try_block P cfg ''update_sentry_issue_status'' args =
      throw_McpError InvalidParams ''Invalid args for update_sentry_issue_status.''"
    by (simp add: try_block_def)
  then show "callTool P cfg ''update_sentry_issue_status'' args =
        (Inl \<lparr>code = InvalidParams, message = ''Invalid args for update_sentry_issue_status.''\<rparr>, [])"
    by (rule callTool_throw)
next
  assume "\<not> isValidCreateCommentArgs args"
  then have "try_block P cfg ''create_sentry_issue_comment'' args =
      throw_McpError InvalidParams ''Invalid args for create_sentry_issue_comment.''"
    by (simp add: try_block_def)
  then show "callTool P cfg ''create_sentry_issue_comment'' args =
        (Inl \<lparr>code = InvalidParams, message = ''Invalid args for create_sentry_issue_comment.''\<rparr>, [])"
    by (rule callTool_throw)
next
  assume "isValidGetIssueArgs args \<and>
    getIssueId (URL_ctor P) (asString (get_prop args ''issue_id_or_url'')) = Inr None"
  then have "try_block P cfg ''get_sentry_issue'' args =
      throw_McpError InvalidParams
        (''Could not extract issue ID from: '' @ asString (get_prop args ''issue_id_or_url''))"
    by (simp add: try_block_def)
  then show "callTool P cfg ''get_sentry_issue'' args =
        (Inl \<lparr>code = InvalidParams,
              message = ''Could not extract issue ID from: '' @
                        asString (get_prop args ''issue_id_or_url'')\<rparr>, [])"
    by (rule callTool_throw)
qed

text \<open>
  An unknown tool, each validator on an absent argument bag, and the reference
  \<^verbatim>\<open>abc\<close>.
\<close>

theorem protocol_faults_witness:
  "''delete_sentry_issue'' \<notin> set (map name tools) \<and>
   callTool (demo_platform (Resolved ''[]'')) demo_config ''delete_sentry_issue'' Undefined =
     (Inl \<lparr>code = MethodNotFound, message = ''Unknown tool: delete_sentry_issue''\<rparr>, []) \<and>
   \<not> isValidGetIssueArgs Undefined \<and>
   callTool (demo_platform (Resolved ''[]'')) demo_config ''get_sentry_issue'' Undefined =
     (Inl \<lparr>code = InvalidParams, message = ''Invalid args for get_sentry_issue.''\<rparr>, []) \<and>
   \<not> isValidListIssuesArgs Undefined \<and>
   callTool (demo_platform (Resolved ''[]'')) demo_config ''list_sentry_issues'' Undefined =
     (Inl \<lparr>code = InvalidParams, message = ''Invalid args for list_sentry_issues.''\<rparr>, []) \<and>
   \<not> isValidGetEventArgs Undefined \<and>
   callTool (demo_platform (Resolved ''[]'')) demo_config ''get_sentry_event_details'' Undefined =
     (Inl \<lparr>code = InvalidParams, message = ''Invalid args for get_sentry_event_details.''\<rparr>, []) \<and>
   \<not> isValidUpdateIssueArgs Undefined \<and>
   callTool (demo_platform (Resolved ''[]'')) demo_config ''update_sentry_issue_status'' Undefined =
     (Inl \<lparr>code = InvalidParams, message = ''Invalid args for update_sentry_issue_status.''\<rparr>, []) \<and>
   \<not> isValidCreateCommentArgs Undefined \<and>
   callTool (demo_platform (Resolved ''[]'')) demo_config ''create_sentry_issue_comment'' Undefined =
     (Inl \<lparr>code = InvalidParams, message = ''Invalid args for create_sentry_issue_comment.''\<rparr>, []) \<and>
   isValidGetIssueArgs (Object [(''issue_id_or_url'', String ''abc'')]) \<and>
   getIssueId (URL_ctor (demo_platform (Resolved ''[]''))) ''abc'' = Inr None \<and>
   callTool (demo_platform (Resolved ''[]'')) demo_config ''get_sentry_issue''
     (Object [(''issue_id_or_url'', String ''abc'')]) =
     (Inl \<lparr>code = InvalidParams, message = ''Could not extract issue ID from: abc''\<rparr>, [])"
proof -
  let ?P = "demo_platform (Resolved ''[]'')"
  let ?abc = "Object [(''issue_id_or_url'', String ''abc'')]"
  have u: "''delete_sentry_issue'' \<notin> set (map name tools)" by code_simp
  have v1: "\<not> isValidGetIssueArgs Undefined" by code_simp
  have v2: "\<not> isValidListIssuesArgs Undefined" by code_simp
  have v3: "\<not> isValidGetEventArgs Undefined" by code_simp
  have v4: "\<not> isValidUpdateIssueArgs Undefined" by code_simp
  have v5: "\<not> isValidCreateCommentArgs Undefined" by code_simp
  have w1: "isValidGetIssueArgs ?abc" by code_simp
  have w2: "getIssueId (URL_ctor ?P) ''abc'' = Inr None" by code_simp
  have w3: "asString (get_prop ?abc ''issue_id_or_url'') = ''abc''" by simp
  note a = protocol_faults [of "''delete_sentry_issue''" ?P demo_config Undefined]
  note b = protocol_faults [of "''delete_sentry_issue''" ?P demo_config ?abc]
  from a u have r0: "callTool ?P demo_config ''delete_sentry_issue'' Undefined =
     (Inl \<lparr>code = MethodNotFound, message = ''Unknown tool: delete_sentry_issue''\<rparr>, [])"
    by simp
  from a v1 have r1: "callTool ?P demo_config ''get_sentry_issue'' Undefined =
     (Inl \<lparr>code = InvalidParams, message = ''Invalid args for get_sentry_issue.''\<rparr>, [])"
    by blast
  from a v2 have r2: "callTool ?P demo_config ''list_sentry_issues'' Undefined =
     (Inl \<lparr>code = InvalidParams, message = ''Invalid args for list_sentry_issues.''\<rparr>, [])"
    by blast
  from a v3 have r3: "callTool ?P demo_config ''get_sentry_event_details'' Undefined =
     (Inl \<lparr>code = InvalidParams, message = ''Invalid args for get_sentry_event_details.''\<rparr>, [])"
    by blast
  from a v4 have r4: "callTool ?P demo_config ''update_sentry_issue_status'' Undefined =
     (Inl \<lparr>code = InvalidParams, message = ''Invalid args for update_sentry_issue_status.''\<rparr>, [])"
    by blast
  from a v5 have r5: "callTool ?P demo_config ''create_sentry_issue_comment'' Undefined =
     (Inl \<lparr>code = InvalidParams, message = ''Invalid args for create_sentry_issue_comment.''\<rparr>, [])"
    by blast
  from b w1 w2 have r6: "callTool ?P demo_config ''get_sentry_issue'' ?abc =
     (Inl \<lparr>code = InvalidParams, message = ''Could not extract issue ID from: abc''\<rparr>, [])"
    unfolding w3 by simp
  from u v1 v2 v3 v4 v5 w1 w2 r0 r1 r2 r3 r4 r5 r6 show ?thesis by blast
qed

text \<open>
  C6, as stated, fails on empty strings, which the validator accepts and the handler treats
  as absent: a call with the status \<^verbatim>\<open>""\<close> sends no \<^verbatim>\<open>query\<close> parameter at
  all, and a call with the query \<^verbatim>\<open>""\<close> and the status \<^verbatim>\<open>resolved\<close> sends
  \<^verbatim>\<open>is:resolved\<close> without a joining space.
\<close>

theorem list_issues_empty_status_counterexample:
  "isValidListIssuesArgs (Object [(''project_slug'', String ''web''), (''status'', String '''')]) \<and>
   snd (callTool (demo_platform (Resolved ''[]'')) demo_config ''list_sentry_issues''
          (Object [(''project_slug'', String ''web''), (''status'', String '''')])) =
     [\<lparr>verb = GET, path = ''projects/acme/web/issues/'', params = Some [], data = None\<rparr>] \<and>
   isValidListIssuesArgs
     (Object [(''project_slug'', String ''web''), (''query'', String ''''),
              (''status'', String ''resolved'')]) \<and>
   snd (callTool (demo_platform (Resolved ''[]'')) demo_config ''list_sentry_issues''
          (Object [(''project_slug'', String ''web''), (''query'', String ''''),
                   (''status'', String ''resolved'')])) =
     [\<lparr>verb = GET, path = ''projects/acme/web/issues/'',
       params = Some [(''query'', ''is:resolved'')], data = None\<rparr>]"
  by code_simp

text \<open>
  C6, amended.  For a valid \<^verbatim>\<open>list_sentry_issues\<close> call whose status is a non-empty
  string, exactly one request is issued and its \<^verbatim>\<open>query\<close> parameter is
  \<^verbatim>\<open>is:{status}\<close> when the query is absent or empty, and the query, one space and
  \<^verbatim>\<open>is:{status}\<close> when the query is a non-empty string.
\<close>

theorem list_issues_query:
  assumes "isValidListIssuesArgs args" and "get_prop args ''status'' = String s" and "s \<noteq> []"
  shows "snd (callTool P cfg ''list_sentry_issues'' args) =
           [\<lparr>verb = GET,
             path = ''projects/'' @ ORG_SLUG cfg @ ''/'' @
                    asString (get_prop args ''project_slug'') @ ''/issues/'',
             params = Some (list_issues_params args), data = None\<rparr>] \<and>
         (get_prop args ''query'' = Undefined \<or> get_prop args ''query'' = String [] \<longrightarrow>
            list_issues_params args = [(''query'', ''is:'' @ s)]) \<and>
         (\<forall>q. get_prop args ''query'' = String q \<and> q \<noteq> [] \<longrightarrow>
            list_issues_params args = [(''query'', q @ '' '' @ ''is:'' @ s)])"
proof (intro conjI allI impI)
  from assms(1) have "try_block P cfg ''list_sentry_issues'' args =
      perform P \<lparr>verb = GET,
             path = ''projects/'' @ ORG_SLUG cfg @ ''/'' @
                    asString (get_prop args ''project_slug'') @ ''/issues/'',
             params = Some (list_issues_params args), data = None\<rparr>"
    by (simp add: try_block_def)
  from callTool_of_perform [OF this]
  show "snd (callTool P cfg ''list_sentry_issues'' args) =
           [\<lparr>verb = GET,
             path = ''projects/'' @ ORG_SLUG cfg @ ''/'' @
                    asString (get_prop args ''project_slug'') @ ''/issues/'',
             params = Some (list_issues_params args), data = None\<rparr>]"
    by (simp split: axios_result.splits)
next
  assume "get_prop args ''query'' = Undefined \<or> get_prop args ''query'' = String []"
  with assms(2,3) show "list_issues_params args = [(''query'', ''is:'' @ s)]"
    by (auto simp: list_issues_params_def Let_def)
next
  fix q
  assume "get_prop args ''query'' = String q \<and> q \<noteq> []"
  with assms(2,3) show "list_issues_params args = [(''query'', q @ '' '' @ ''is:'' @ s)]"
    by (simp add: list_issues_params_def Let_def)
qed

text \<open>
  The two calls of the specification: the status \<^verbatim>\<open>unresolved\<close> alone, and the
  query \<^verbatim>\<open>environment:prod\<close> with the status \<^verbatim>\<open>resolved\<close>.
\<close>

theorem list_issues_query_witness:
  "isValidListIssuesArgs (Object [(''project_slug'', String ''web''), (''status'', String ''unresolved'')]) \<and>
   snd (callTool (demo_platform (Resolved ''[]'')) demo_config ''list_sentry_issues''
          (Object [(''project_slug'', String ''web''), (''status'', String ''unresolved'')])) =
     [\<lparr>verb = GET, path = ''projects/acme/web/issues/'',
       params = Some [(''query'', ''is:unresolved'')], data = None\<rparr>] \<and>
   isValidListIssuesArgs
     (Object [(''project_slug'', String ''web''), (''query'', String ''environment:prod''),
              (''status'', String ''resolved'')]) \<and>
   snd (callTool (demo_platform (Resolved ''[]'')) demo_config ''list_sentry_issues''
          (Object [(''project_slug'', String ''web''), (''query'', String ''environment:prod''),
                   (''status'', String ''resolved'')])) =
     [\<lparr>verb = GET, path = ''projects/acme/web/issues/'',
       params = Some [(''query'', ''environment:prod is:resolved'')], data = None\<rparr>]"
proof -
  let ?P = "demo_platform (Resolved ''[]'')"
  let ?a1 = "Object [(''project_slug'', String ''web''), (''status'', String ''unresolved'')]"
  let ?a2 = "Object [(''project_slug'', String ''web''), (''query'', String ''environment:prod''),
              (''status'', String ''resolved'')]"
  have v1: "isValidListIssuesArgs ?a1" by code_simp
  have v2: "isValidListIssuesArgs ?a2" by code_simp
  have s1: "get_prop ?a1 ''status'' = String ''unresolved''" by simp
  have s2: "get_prop ?a2 ''status'' = String ''resolved''" by simp
  have q1: "get_prop ?a1 ''query'' = Undefined" by simp
  have q2: "get_prop ?a2 ''query'' = String ''environment:prod''" by simp
  have p1: "asString (get_prop ?a1 ''project_slug'') = ''web''" by simp
  have p2: "asString (get_prop ?a2 ''project_slug'') = ''web''" by simp
  have o: "ORG_SLUG demo_config = ''acme''" by (simp add: demo_config_def)
  from list_issues_query [OF v1 s1, of ?P demo_config] q1
  have r1: "snd (callTool ?P demo_config ''list_sentry_issues'' ?a1) =
     [\<lparr>verb = GET, path = ''projects/acme/web/issues/'',
       params = Some [(''query'', ''is:unresolved'')], data = None\<rparr>]"
    unfolding p1 o by simp
  from list_issues_query [OF v2 s2, of ?P demo_config] q2
  have r2: "snd (callTool ?P demo_config ''list_sentry_issues'' ?a2) =
     [\<lparr>verb = GET, path = ''projects/acme/web/issues/'',
       params = Some [(''query'', ''environment:prod is:resolved'')], data = None\<rparr>]"
    unfolding p2 o by simp
  from v1 v2 r1 r2 show ?thesis by blast
qed

end
